theory Spec2Isabelle
  imports Main "HOL-Library.Sublist"
begin

section \<open>Errors raised by the resolver layer\<close>

text \<open>
  The raises of \<^verbatim>\<open>partition_sets.py\<close> that the modelled functions can reach:
  \<^item> \<open>CheckError\<close>: \<^verbatim>\<open>check.failed\<close> was reached;
  \<^item> \<open>DagsterUserCodeProcessError\<close>: the code location answered a partition-name
    request with error data (the payload is that error info).
\<close>

datatype error =
    CheckError
  | DagsterUserCodeProcessError string

section \<open>Partition-definition data\<close>

text \<open>
  The four subclasses of \<^verbatim>\<open>ExternalPartitionsDefinitionData\<close> that the module imports.
  The source reads only \<^verbatim>\<open>name\<close> of the dynamic variant and
  \<^verbatim>\<open>external_partition_dimension_definitions\<close> of the multi variant (each dimension a
  name with its own definition data); the payloads of the static and time-window variants
  follow the data model of the specification and are never inspected.
  Python's class hierarchy is open, so a fifth case stands for what the
  \<^verbatim>\<open>isinstance\<close> chain can still meet: an instance of some other subclass of the base
  class. The type as a whole is the base class, the annotated type of the parameter, so
  the \<^verbatim>\<open>check.inst_param\<close> that opens \<^verbatim>\<open>from_partition_def_data\<close> passes on
  every value of it.
\<close>

datatype ExternalPartitionsDefinitionData =
    ExternalStaticPartitionsDefinitionData "string list"
  | ExternalTimeWindowPartitionsDefinitionData string string "string option" string
  | ExternalMultiPartitionsDefinitionData "(string \<times> ExternalPartitionsDefinitionData) list"
  | ExternalDynamicPartitionsDefinitionData string
  | OtherPartitionsDefinitionData

text \<open>
  What \<^verbatim>\<open>get_partitions_definition()\<close> gives back, as far as the module reads it:
  its \<^verbatim>\<open>str()\<close> and, for a multi definition, \<^verbatim>\<open>primary_dimension.name\<close>.
  The method itself lives outside the module and is a parameter of every function
  that calls it.
\<close>

record PartitionsDefinition =
  str_of :: string
  primary_dimension_name :: string

datatype GraphenePartitionDefinitionType = TIME_WINDOW | STATIC | MULTIPARTITIONED | DYNAMIC

text \<open>\<^verbatim>\<open>GraphenePartitionDefinitionType.from_partition_def_data\<close>, lines 479-493.\<close>

fun from_partition_def_data ::
  "ExternalPartitionsDefinitionData \<Rightarrow> error + GraphenePartitionDefinitionType" where
  "from_partition_def_data (ExternalStaticPartitionsDefinitionData ks) = Inr STATIC"
| "from_partition_def_data (ExternalTimeWindowPartitionsDefinitionData s c e z) = Inr TIME_WINDOW"
| "from_partition_def_data (ExternalMultiPartitionsDefinitionData ds) = Inr MULTIPARTITIONED"
| "from_partition_def_data (ExternalDynamicPartitionsDefinitionData n) = Inr DYNAMIC"
| "from_partition_def_data OtherPartitionsDefinitionData = Inl CheckError"

text \<open>The precondition "one of the four variants".\<close>

fun is_known_variant :: "ExternalPartitionsDefinitionData \<Rightarrow> bool" where
  "is_known_variant (ExternalStaticPartitionsDefinitionData ks) = True"
| "is_known_variant (ExternalTimeWindowPartitionsDefinitionData s c e z) = True"
| "is_known_variant (ExternalMultiPartitionsDefinitionData ds) = True"
| "is_known_variant (ExternalDynamicPartitionsDefinitionData n) = True"
| "is_known_variant OtherPartitionsDefinitionData = False"

section \<open>Dimension descriptors\<close>

record GrapheneDimensionDefinitionType =
  dim_name :: string
  dim_description :: string
  dim_type :: GraphenePartitionDefinitionType
  isPrimaryDimension :: bool
  dynamicPartitionsDefinitionName :: "string option"

text \<open>
  The expression \<^verbatim>\<open>x.name if isinstance(x, ExternalDynamicPartitionsDefinitionData) else None\<close>.
\<close>

fun dynamic_name :: "ExternalPartitionsDefinitionData \<Rightarrow> string option" where
  "dynamic_name (ExternalDynamicPartitionsDefinitionData n) = Some n"
| "dynamic_name d = None"

text \<open>
  The list comprehension of the multi branch of \<^verbatim>\<open>resolve_dimensionTypes\<close>
  (lines 519-540): one descriptor per dimension, in order; the first dimension whose
  classification raises ends the comprehension with that error. \<open>gpd\<close> is
  \<^verbatim>\<open>get_partitions_definition\<close> and \<open>primary\<close> the name of the primary dimension of
  the enclosing definition.
\<close>

fun dimension_types ::
  "(ExternalPartitionsDefinitionData \<Rightarrow> PartitionsDefinition) \<Rightarrow> string \<Rightarrow>
   (string \<times> ExternalPartitionsDefinitionData) list \<Rightarrow>
   error + GrapheneDimensionDefinitionType list" where
  "dimension_types gpd primary [] = Inr []"
| "dimension_types gpd primary ((n, d) # dims) =
     (case from_partition_def_data d of
        Inl e \<Rightarrow> Inl e
      | Inr t \<Rightarrow>
          (case dimension_types gpd primary dims of
             Inl e \<Rightarrow> Inl e
           | Inr rest \<Rightarrow>
               Inr (\<lparr>dim_name = n,
                     dim_description = str_of (gpd d),
                     dim_type = t,
                     isPrimaryDimension = (n = primary),
                     dynamicPartitionsDefinitionName = dynamic_name d\<rparr> # rest)))"

text \<open>\<^verbatim>\<open>GraphenePartitionDefinition.resolve_dimensionTypes\<close>, lines 516-557.\<close>

fun resolve_dimensionTypes ::
  "(ExternalPartitionsDefinitionData \<Rightarrow> PartitionsDefinition) \<Rightarrow>
   ExternalPartitionsDefinitionData \<Rightarrow> error + GrapheneDimensionDefinitionType list" where
  "resolve_dimensionTypes gpd (ExternalMultiPartitionsDefinitionData dims) =
     dimension_types gpd
       (primary_dimension_name (gpd (ExternalMultiPartitionsDefinitionData dims))) dims"
| "resolve_dimensionTypes gpd d =
     (case from_partition_def_data d of
        Inl e \<Rightarrow> Inl e
      | Inr t \<Rightarrow>
          Inr [\<lparr>dim_name = ''default'',
                dim_description = '''',
                dim_type = t,
                isPrimaryDimension = True,
                dynamicPartitionsDefinitionName = dynamic_name d\<rparr>])"

text \<open>
  A well-formed partition definition: a single-dimension definition of one of the four
  kinds, or a multi definition whose dimension names are unique, whose primary dimension
  is one of its dimensions, and whose dimensions are of the four kinds.
\<close>

fun well_formed_def ::
  "(ExternalPartitionsDefinitionData \<Rightarrow> PartitionsDefinition) \<Rightarrow>
   ExternalPartitionsDefinitionData \<Rightarrow> bool" where
  "well_formed_def gpd (ExternalMultiPartitionsDefinitionData dims) =
     (distinct (map fst dims) \<and>
      primary_dimension_name (gpd (ExternalMultiPartitionsDefinitionData dims))
        \<in> set (map fst dims) \<and>
      list_all (\<lambda>nd. is_known_variant (snd nd)) dims)"
| "well_formed_def gpd d = is_known_variant d"

section \<open>Partition sets and the request context\<close>

text \<open>
  The objects the resolvers read, each with the attributes the module reads. Where two
  classes have an attribute of the same name, the field carries a prefix
  (\<open>eps_name\<close> is \<^verbatim>\<open>ExternalPartitionSet.name\<close>, \<open>origin_repository_name\<close> is
  \<^verbatim>\<open>repository_origin.repository_name\<close>).
\<close>

record RepositoryHandle =
  repository_name :: string

record ExternalPartitionSet =
  eps_name :: string
  eps_job_name :: string
  eps_op_selection :: "string list option"
  eps_mode :: string

record RepositoryOrigin =
  origin_repository_name :: string

record ExternalPartitionSetOrigin =
  partition_set_name :: string
  repository_origin :: RepositoryOrigin

record PartitionBackfill =
  backfill_id :: string
  partition_set_origin :: "ExternalPartitionSetOrigin option"

text \<open>
  The instance, as far as the module calls it: \<^verbatim>\<open>get_backfills(cursor=...)\<close> returns the
  stored backfills in the store's order.
\<close>

record DagsterInstance =
  get_backfills :: "string option \<Rightarrow> PartitionBackfill list"

text \<open>
  The answer of \<^verbatim>\<open>get_external_partition_names\<close>: partition names, or the error data
  of a failed call into user code.
\<close>

datatype ExternalPartitionNamesResult =
    ExternalPartitionNamesData "string list"
  | ExternalPartitionExecutionErrorData string

text \<open>
  \<^verbatim>\<open>graphene_info.context\<close>: the instance and the partition-name lookup, called with the
  repository handle, the job name, the instance and the selected asset keys.
\<close>

record RequestContext =
  ctx_instance :: DagsterInstance
  get_external_partition_names ::
    "RepositoryHandle \<Rightarrow> string \<Rightarrow> DagsterInstance \<Rightarrow> string list option \<Rightarrow>
     ExternalPartitionNamesResult"

text \<open>
  The private attributes of a \<^verbatim>\<open>GraphenePartitionSet\<close> object (the source writes them
  with a leading underscore). \<open>partition_names\<close> is the mutable one: \<open>None\<close> until a
  lookup has succeeded.
\<close>

record GraphenePartitionSet =
  external_repository_handle :: RepositoryHandle
  external_partition_set :: ExternalPartitionSet
  partition_names :: "string list option"

text \<open>\<^verbatim>\<open>GraphenePartitionSet.__init__\<close>, lines 352-370.\<close>

definition GraphenePartitionSet_init ::
  "RepositoryHandle \<Rightarrow> ExternalPartitionSet \<Rightarrow> GraphenePartitionSet" where
  "GraphenePartitionSet_init handle eps =
     \<lparr>external_repository_handle = handle,
      external_partition_set = eps,
      partition_names = None\<rparr>"

text \<open>
  \<^verbatim>\<open>GraphenePartitionSet._get_partition_names\<close>, lines 372-385. The method mutates
  \<^verbatim>\<open>self\<close>, so the model returns the object after the call next to the outcome.
\<close>

definition get_partition_names ::
  "GraphenePartitionSet \<Rightarrow> RequestContext \<Rightarrow> (error + string list) \<times> GraphenePartitionSet" where
  "get_partition_names self ctx =
     (case partition_names self of
        None \<Rightarrow>
          (case get_external_partition_names ctx
                  (external_repository_handle self)
                  (eps_job_name (external_partition_set self))
                  (ctx_instance ctx)
                  None of
             ExternalPartitionExecutionErrorData e \<Rightarrow>
               (Inl (DagsterUserCodeProcessError e), self)
           | ExternalPartitionNamesData names \<Rightarrow>
               (Inr names, self\<lparr>partition_names := Some names\<rparr>))
      | Some names \<Rightarrow> (Inr names, self))"

section \<open>Backfills of a partition set\<close>

text \<open>Python's slice \<^verbatim>\<open>xs[:limit]\<close>: a negative bound counts from the end.\<close>

fun slice_to :: "'a list \<Rightarrow> int option \<Rightarrow> 'a list" where
  "slice_to xs None = xs"
| "slice_to xs (Some l) =
     (if 0 \<le> l then take (nat l) xs else take (nat (int (length xs) + l)) xs)"

datatype GraphenePartitionBackfill = GraphenePartitionBackfill PartitionBackfill

text \<open>The condition of the comprehension in \<^verbatim>\<open>resolve_backfills\<close>, lines 442-446.\<close>

definition backfill_matches :: "GraphenePartitionSet \<Rightarrow> PartitionBackfill \<Rightarrow> bool" where
  "backfill_matches self backfill =
     (case partition_set_origin backfill of
        None \<Rightarrow> False
      | Some origin \<Rightarrow>
          partition_set_name origin = eps_name (external_partition_set self) \<and>
          origin_repository_name (repository_origin origin) =
            repository_name (external_repository_handle self))"

text \<open>\<^verbatim>\<open>GraphenePartitionSet.resolve_backfills\<close>, lines 434-448.\<close>

definition resolve_backfills ::
  "GraphenePartitionSet \<Rightarrow> RequestContext \<Rightarrow> string option \<Rightarrow> int option \<Rightarrow>
   GraphenePartitionBackfill list" where
  "resolve_backfills self graphene_info cursor limit =
     (let matching =
            filter (backfill_matches self) (get_backfills (ctx_instance graphene_info) cursor)
      in map GraphenePartitionBackfill (slice_to matching limit))"

section \<open>Runs of a partition\<close>

text \<open>
  \<^verbatim>\<open>RunsFilter\<close>, with the four fields the module sets, as the constructor stores them:
  the run ids and the statuses as lists, the job name if there is one, and the tags. The
  run-status type is a parameter: its enumeration is declared outside the module.
\<close>

record 's RunsFilter =
  run_ids :: "string list"
  job_name :: "string option"
  statuses :: "'s list"
  tags :: "string \<rightharpoonup> string"

text \<open>
  The constructor call \<^verbatim>\<open>RunsFilter(run_ids=..., job_name=..., statuses=..., tags=...)\<close>.
  The class is declared outside the module. An argument the call leaves out is \<open>None\<close>.
  The constructor refuses an empty list of run ids (an invariant check that raises
  \<open>CheckError\<close>: a filter on run ids needs at least one) and stores a list or
  dictionary that was left out as the empty one.
\<close>

definition RunsFilter_new ::
  "string list option \<Rightarrow> string option \<Rightarrow> 's list option \<Rightarrow> (string \<rightharpoonup> string) option \<Rightarrow>
   error + 's RunsFilter" where
  "RunsFilter_new run_ids_arg job_name_arg statuses_arg tags_arg =
     (if run_ids_arg = Some [] then Inl CheckError
      else Inr \<lparr>run_ids = (case run_ids_arg of None \<Rightarrow> [] | Some ids \<Rightarrow> ids),
                job_name = job_name_arg,
                statuses = (case statuses_arg of None \<Rightarrow> [] | Some ss \<Rightarrow> ss),
                tags = (case tags_arg of None \<Rightarrow> Map.empty | Some t \<Rightarrow> t)\<rparr>)"

text \<open>The private attributes of a \<^verbatim>\<open>GraphenePartition\<close> object, lines 254-260.\<close>

record GraphenePartition =
  p_external_repository_handle :: RepositoryHandle
  p_external_partition_set :: ExternalPartitionSet
  p_partition_name :: string

text \<open>
  \<^verbatim>\<open>GraphenePartition.resolve_runs\<close>, lines 289-311. What the module imports is a
  parameter: \<open>get_runs\<close> (the query against the run storage), \<open>to_selector\<close> (the method
  of the caller's filter object, which returns a \<^verbatim>\<open>RunsFilter\<close>), \<open>merge_dicts\<close>, and
  the two tag names \<^verbatim>\<open>PARTITION_SET_TAG\<close> and \<^verbatim>\<open>PARTITION_NAME_TAG\<close>. The dictionary
  display \<^verbatim>\<open>{PARTITION_SET_TAG: ..., PARTITION_NAME_TAG: ...}\<close> stores its entries from
  left to right. When the constructor of the runs filter raises, \<open>get_runs\<close> is not
  called and the error is the outcome.
\<close>

definition resolve_runs ::
  "('s RunsFilter \<Rightarrow> string option \<Rightarrow> int option \<Rightarrow> 'r) \<Rightarrow>
   ('f \<Rightarrow> 's RunsFilter) \<Rightarrow>
   ((string \<rightharpoonup> string) \<Rightarrow> (string \<rightharpoonup> string) \<Rightarrow> (string \<rightharpoonup> string)) \<Rightarrow>
   string \<Rightarrow> string \<Rightarrow>
   GraphenePartition \<Rightarrow> 'f option \<Rightarrow> string option \<Rightarrow> int option \<Rightarrow> error + 'r" where
  "resolve_runs get_runs to_selector merge_dicts PARTITION_SET_TAG PARTITION_NAME_TAG
     self filter' cursor limit =
     (let partition_tags =
            (Map.empty(PARTITION_SET_TAG \<mapsto> eps_name (p_external_partition_set self)))
              (PARTITION_NAME_TAG \<mapsto> p_partition_name self);
          runs_filter =
            (case filter' of
               Some f \<Rightarrow>
                 (let selector = to_selector f
                  in RunsFilter_new
                       (Some (run_ids selector))
                       (job_name selector)
                       (Some (statuses selector))
                       (Some (merge_dicts (tags selector) partition_tags)))
             | None \<Rightarrow> RunsFilter_new None None None (Some partition_tags))
      in case runs_filter of
           Inl e \<Rightarrow> Inl e
         | Inr rf \<Rightarrow> Inr (get_runs rf cursor limit))"


section \<open>Result unions of the dynamic-partition mutations\<close>

text \<open>
  The object types that the two result unions name: the two success types the module
  declares (lines 50-55 and 69-73) and the error types it imports.
\<close>

datatype GrapheneObjectType =
    GrapheneAddDynamicPartitionSuccess
  | GrapheneDeleteDynamicPartitionsSuccess
  | GrapheneUnauthorizedError
  | GraphenePythonError
  | GrapheneDuplicateDynamicPartitionError

text \<open>
  A \<^verbatim>\<open>graphene.Union\<close> is the tuple of its member types (\<^verbatim>\<open>Meta.types\<close>): a result of
  the mutation is an object of one of them.
  \<^verbatim>\<open>GrapheneAddDynamicPartitionResult\<close>, lines 58-66.
\<close>

definition GrapheneAddDynamicPartitionResult :: "GrapheneObjectType list" where
  "GrapheneAddDynamicPartitionResult =
     [GrapheneAddDynamicPartitionSuccess,
      GrapheneUnauthorizedError,
      GraphenePythonError,
      GrapheneDuplicateDynamicPartitionError]"

text \<open>\<^verbatim>\<open>GrapheneDeleteDynamicPartitionsResult\<close>, lines 76-83.\<close>

definition GrapheneDeleteDynamicPartitionsResult :: "GrapheneObjectType list" where
  "GrapheneDeleteDynamicPartitionsResult =
     [GrapheneDeleteDynamicPartitionsSuccess,
      GrapheneUnauthorizedError,
      GraphenePythonError]"

text \<open>
  The member types that are errors about particular partition keys, rather than about
  permissions or an arbitrary exception.
\<close>

fun is_partition_key_error :: "GrapheneObjectType \<Rightarrow> bool" where
  "is_partition_key_error GrapheneDuplicateDynamicPartitionError = True"
| "is_partition_key_error t = False"

section \<open>The registry of dynamic partitions\<close>

text \<open>
  Modelled from the spec: the errors of the DynamicPartitionRegistry (sections 4.2 and 7).
  The module holds the result types of the mutations only; the registry they call is
  not among the source files. Each error carries the definition name and the offending
  keys.
\<close>

datatype registry_error =
    DuplicateKeyError string "string list"
  | KeyNotFoundError string "string list"

text \<open>
  Modelled from the spec: DynamicPartitionsState of section 3, a mapping from a
  definition name to its keys in insertion order; a name nothing was added to has no
  keys.
\<close>

type_synonym DynamicPartitionsState = "string \<Rightarrow> string list"

text \<open>Modelled from the spec: \<open>listKeys\<close> of section 4.2.\<close>

definition listKeys :: "DynamicPartitionsState \<Rightarrow> string \<Rightarrow> string list" where
  "listKeys st defName = st defName"

text \<open>
  Modelled from the spec: \<open>addKeys\<close> of section 4.2. The call is rejected as a whole
  with the keys that are already present, or it commits every key (each once) behind
  the keys the definition has.
\<close>

definition addKeys ::
  "DynamicPartitionsState \<Rightarrow> string \<Rightarrow> string list \<Rightarrow>
   registry_error + (string list \<times> DynamicPartitionsState)" where
  "addKeys st defName keys =
     (let present = filter (\<lambda>k. k \<in> set (st defName)) keys
      in if present \<noteq> [] then Inl (DuplicateKeyError defName present)
         else Inr (remdups keys, st(defName := st defName @ remdups keys)))"

text \<open>
  Modelled from the spec: \<open>deleteKeys\<close> of section 4.2; the delete operation of the
  registry is not among the source files. The call is rejected as a whole with the keys
  that are not present, or it removes every given key from the keys the definition has.
\<close>

definition deleteKeys ::
  "DynamicPartitionsState \<Rightarrow> string \<Rightarrow> string list \<Rightarrow> registry_error + DynamicPartitionsState" where
  "deleteKeys st defName keys =
     (let missing = filter (\<lambda>k. k \<notin> set (st defName)) keys
      in if missing \<noteq> [] then Inl (KeyNotFoundError defName missing)
         else Inr (st(defName := filter (\<lambda>k. k \<notin> set keys) (st defName))))"

section \<open>The run ledger and the status aggregator\<close>

text \<open>
  Modelled from the spec: RunRecord of section 3 (run id, status, tags); the duration
  plays no part in any operation here. The ledger itself is a list of records, newest
  first. The functions that query the run storage for partition statuses are not among
  the source files.
\<close>

record 's RunRecord =
  run_id :: string
  run_status :: 's
  run_tags :: "string \<rightharpoonup> string"

text \<open>
  Modelled from the spec: the tag filter of \<open>RunLedgerQuery.find\<close> (section 4.3 a):
  every tag of the filter is present on the record with an equal value.
\<close>

definition tags_match :: "(string \<times> string) list \<Rightarrow> 's RunRecord \<Rightarrow> bool" where
  "tags_match tagFilter r = list_all (\<lambda>kv. run_tags r (fst kv) = Some (snd kv)) tagFilter"

text \<open>
  Modelled from the spec: \<open>RunLedgerQuery.find\<close> of section 4.3, without the cursor
  (the status query passes none): the records that pass the tag, status and run-id
  filters, newest first, at most \<open>limit\<close> of them.
\<close>

definition RunLedgerQuery_find ::
  "'s RunRecord list \<Rightarrow> (string \<times> string) list \<Rightarrow> 's list option \<Rightarrow> string list option \<Rightarrow>
   nat option \<Rightarrow> 's RunRecord list" where
  "RunLedgerQuery_find ledger tagFilter statusFilter runIdFilter limit =
     (let hits =
            filter (\<lambda>r. tags_match tagFilter r \<and>
                        (case statusFilter of None \<Rightarrow> True | Some ss \<Rightarrow> run_status r \<in> set ss) \<and>
                        (case runIdFilter of None \<Rightarrow> True | Some ids \<Rightarrow> run_id r \<in> set ids))
              ledger
      in case limit of None \<Rightarrow> hits | Some n \<Rightarrow> take n hits)"

text \<open>
  Modelled from the spec: the status of a partition (section 3), a run status or
  "unstarted".
\<close>

datatype 's partition_run_status = Unstarted | RunStatus 's

text \<open>
  Modelled from the spec: PartitionStatus of section 3: the partition key, the id of the
  most recent matching run if there is one, and the status.
\<close>

record 's PartitionStatus =
  partition_key :: string
  latest_run_id :: "string option"
  status :: "'s partition_run_status"

text \<open>
  Modelled from the spec: \<open>statusOf\<close> of section 4.4. The query carries the two tags
  and asks for one record. The tag names are parameters, as in \<open>resolve_runs\<close>.
\<close>

definition statusOf ::
  "string \<Rightarrow> string \<Rightarrow> 's RunRecord list \<Rightarrow> ExternalPartitionSet \<Rightarrow> string \<Rightarrow>
   's PartitionStatus" where
  "statusOf PARTITION_SET_TAG PARTITION_NAME_TAG ledger partitionSet partitionKey =
     (case RunLedgerQuery_find ledger
             [(PARTITION_SET_TAG, eps_name partitionSet), (PARTITION_NAME_TAG, partitionKey)]
             None None (Some 1) of
        [] \<Rightarrow> \<lparr>partition_key = partitionKey, latest_run_id = None, status = Unstarted\<rparr>
      | r # rs \<Rightarrow>
          \<lparr>partition_key = partitionKey, latest_run_id = Some (run_id r),
           status = RunStatus (run_status r)\<rparr>)"

text \<open>
  Modelled from the spec: one step of the tally of section 4.4: the bucket of the status
  grows by one, and a status seen for the first time gets a bucket of its own. The
  mapping from statuses to counts is kept as a list of buckets.
\<close>

fun tally :: "'a \<Rightarrow> ('a \<times> nat) list \<Rightarrow> ('a \<times> nat) list" where
  "tally s [] = [(s, 1)]"
| "tally s ((t, n) # buckets) =
     (if s = t then (t, Suc n) # buckets else (t, n) # tally s buckets)"

text \<open>
  Modelled from the spec: \<open>statusCounts\<close> of section 4.4: for each key, resolve
  \<open>statusOf\<close> and tally.
\<close>

definition statusCounts ::
  "string \<Rightarrow> string \<Rightarrow> 's RunRecord list \<Rightarrow> ExternalPartitionSet \<Rightarrow> string list \<Rightarrow>
   ('s partition_run_status \<times> nat) list" where
  "statusCounts PARTITION_SET_TAG PARTITION_NAME_TAG ledger partitionSet keys =
     foldl (\<lambda>counts key.
              tally (status (statusOf PARTITION_SET_TAG PARTITION_NAME_TAG ledger partitionSet key))
                counts)
       [] keys"

section \<open>Concrete inputs for the examples\<close>

definition example_handle :: RepositoryHandle where
  "example_handle = \<lparr>repository_name = ''repo''\<rparr>"

definition example_partition_set :: ExternalPartitionSet where
  "example_partition_set =
     \<lparr>eps_name = ''ps'', eps_job_name = ''job'', eps_op_selection = None,
      eps_mode = ''default''\<rparr>"

text \<open>A backfill of the example partition set in the example repository.\<close>

definition example_backfill :: "string \<Rightarrow> PartitionBackfill" where
  "example_backfill i =
     \<lparr>backfill_id = i,
      partition_set_origin =
        Some \<lparr>partition_set_name = ''ps'',
              repository_origin = \<lparr>origin_repository_name = ''repo''\<rparr>\<rparr>\<rparr>"

text \<open>A backfill of another partition set, and one with no partition-set origin.\<close>

definition foreign_backfill :: "string \<Rightarrow> PartitionBackfill" where
  "foreign_backfill i =
     \<lparr>backfill_id = i,
      partition_set_origin =
        Some \<lparr>partition_set_name = ''other'',
              repository_origin = \<lparr>origin_repository_name = ''repo''\<rparr>\<rparr>\<rparr>"

definition asset_backfill :: "string \<Rightarrow> PartitionBackfill" where
  "asset_backfill i = \<lparr>backfill_id = i, partition_set_origin = None\<rparr>"

text \<open>
  A request context whose store holds the given backfills and whose code location
  answers every partition-name request with the given names.
\<close>

definition example_context :: "PartitionBackfill list \<Rightarrow> string list \<Rightarrow> RequestContext" where
  "example_context stored names =
     \<lparr>ctx_instance = \<lparr>get_backfills = \<lambda>cursor. stored\<rparr>,
      get_external_partition_names = \<lambda>handle job inst keys. ExternalPartitionNamesData names\<rparr>"

text \<open>A multi definition with the dimensions color and date, and its definition object.\<close>

definition example_multi :: ExternalPartitionsDefinitionData where
  "example_multi =
     ExternalMultiPartitionsDefinitionData
       [(''color'', ExternalStaticPartitionsDefinitionData [''red'', ''blue'']),
        (''date'',
         ExternalTimeWindowPartitionsDefinitionData ''2024-03-01'' ''0 0 * * *'' None ''UTC'')]"

definition example_gpd :: "ExternalPartitionsDefinitionData \<Rightarrow> PartitionsDefinition" where
  "example_gpd d = \<lparr>str_of = ''multi'', primary_dimension_name = ''date''\<rparr>"

text \<open>A run of the ledger, tagged with a partition set and a partition.\<close>

definition example_run :: "string \<Rightarrow> string \<Rightarrow> string \<Rightarrow> string \<Rightarrow> string RunRecord" where
  "example_run i st ps key =
     \<lparr>run_id = i, run_status = st,
      run_tags = [''dagster/partition_set'' \<mapsto> ps, ''dagster/partition'' \<mapsto> key]\<rparr>"

text \<open>A registry in which the definition fruits holds apple and pear.\<close>

definition example_registry :: DynamicPartitionsState where
  "example_registry = (\<lambda>defName. [])(''fruits'' := [''apple'', ''pear''])"

section \<open>Properties\<close>

subsection \<open>Classification of partition definitions\<close>

lemma from_partition_def_data_total:
  "is_known_variant d \<Longrightarrow> \<exists>t. from_partition_def_data d = Inr t"
  by (cases d) simp_all

text \<open>
  Claim C8. Classifying partition-definition data returns STATIC, TIME_WINDOW,
  MULTIPARTITIONED or DYNAMIC for the static, time-window, multi and dynamic variants
  respectively. If the input is one of these four variants, the failure branch is not
  reached and the result is one of the four kinds; the failure branch is reached exactly
  on an input of another variant.
\<close>

theorem from_partition_def_data_closed:
  "from_partition_def_data (ExternalStaticPartitionsDefinitionData ks) = Inr STATIC \<and>
   from_partition_def_data (ExternalTimeWindowPartitionsDefinitionData s c e z) = Inr TIME_WINDOW \<and>
   from_partition_def_data (ExternalMultiPartitionsDefinitionData ds) = Inr MULTIPARTITIONED \<and>
   from_partition_def_data (ExternalDynamicPartitionsDefinitionData n) = Inr DYNAMIC \<and>
   (is_known_variant d \<longrightarrow>
      from_partition_def_data d \<noteq> Inl CheckError \<and>
      from_partition_def_data d \<in> {Inr STATIC, Inr TIME_WINDOW, Inr MULTIPARTITIONED, Inr DYNAMIC}) \<and>
   (\<not> is_known_variant d \<longrightarrow> from_partition_def_data d = Inl CheckError)"
  by (cases d) simp_all

theorem from_partition_def_data_closed_witness:
  "is_known_variant (ExternalDynamicPartitionsDefinitionData ''fruits'') \<and>
   from_partition_def_data (ExternalDynamicPartitionsDefinitionData ''fruits'') = Inr DYNAMIC \<and>
   \<not> is_known_variant OtherPartitionsDefinitionData \<and>
   from_partition_def_data OtherPartitionsDefinitionData = Inl CheckError"
  using from_partition_def_data_closed [where d = "ExternalDynamicPartitionsDefinitionData ''fruits''"]
    from_partition_def_data_closed [where d = OtherPartitionsDefinitionData]
  by simp

subsection \<open>Dimension descriptors\<close>

lemma dimension_types_known:
  "list_all (\<lambda>nd. is_known_variant (snd nd)) dims \<Longrightarrow>
   \<exists>ds. dimension_types gpd p dims = Inr ds \<and>
        map dim_name ds = map fst dims \<and>
        map isPrimaryDimension ds = map (\<lambda>nd. fst nd = p) dims"
proof (induction dims)
  case Nil
  then show ?case by simp
next
  case (Cons nd dims)
  obtain n d where nd: "nd = (n, d)" by (cases nd)
  from Cons.prems nd have "is_known_variant d" by simp
  then obtain t where t: "from_partition_def_data d = Inr t"
    using from_partition_def_data_total by blast
  from Cons.prems have "list_all (\<lambda>nd. is_known_variant (snd nd)) dims" by simp
  from Cons.IH [OF this] obtain ds where
    ds: "dimension_types gpd p dims = Inr ds" "map dim_name ds = map fst dims"
        "map isPrimaryDimension ds = map (\<lambda>nd. fst nd = p) dims"
    by blast
  show ?case using nd t ds by simp
qed

lemma filter_eq_distinct_one:
  "distinct xs \<Longrightarrow> p \<in> set xs \<Longrightarrow> length (filter (\<lambda>x. x = p) xs) = 1"
  by (induction xs) (auto simp: filter_empty_conv)

lemma length_filter_map_id:
  "length (filter f ds) = length (filter (\<lambda>b. b) (map f ds))"
  by (induction ds) auto

text \<open>
  Claim C7. For every well-formed partition definition, the dimension descriptors are
  resolved and exactly one of them is marked primary. For a multi definition (unique
  dimension names, the primary dimension among them) there is one descriptor per
  dimension, in order, and a descriptor is primary exactly if its name is that of the
  primary dimension. For a single-dimension definition there is the one descriptor
  named "default", marked primary.
\<close>

theorem resolve_dimensionTypes_exactly_one_primary:
  assumes "well_formed_def gpd d"
  shows "\<exists>ds. resolve_dimensionTypes gpd d = Inr ds \<and>
          length (filter isPrimaryDimension ds) = 1 \<and>
          (case d of
             ExternalMultiPartitionsDefinitionData dims \<Rightarrow>
               map dim_name ds = map fst dims \<and>
               map isPrimaryDimension ds =
                 map (\<lambda>nd. fst nd = primary_dimension_name (gpd d)) dims
           | _ \<Rightarrow> map dim_name ds = [''default''] \<and> map isPrimaryDimension ds = [True])"
proof (cases d)
  case (ExternalMultiPartitionsDefinitionData dims)
  let ?p = "primary_dimension_name (gpd d)"
  from assms ExternalMultiPartitionsDefinitionData have
    dist: "distinct (map fst dims)" and mem: "?p \<in> set (map fst dims)" and
    known: "list_all (\<lambda>nd. is_known_variant (snd nd)) dims"
    by simp_all
  from dimension_types_known [OF known, of gpd ?p] obtain ds where
    ds: "dimension_types gpd ?p dims = Inr ds" "map dim_name ds = map fst dims"
        "map isPrimaryDimension ds = map (\<lambda>nd. fst nd = ?p) dims"
    by blast
  have "length (filter isPrimaryDimension ds) =
          length (filter (\<lambda>b. b) (map isPrimaryDimension ds))"
    by (rule length_filter_map_id)
  also have "\<dots> = length (filter (\<lambda>b. b) (map (\<lambda>x. x = ?p) (map fst dims)))"
    using ds(3) by (simp add: comp_def)
  also have "\<dots> = length (filter (\<lambda>x. x = ?p) (map fst dims))"
    by (rule length_filter_map_id [symmetric])
  also have "\<dots> = 1" using dist mem by (rule filter_eq_distinct_one)
  finally have "length (filter isPrimaryDimension ds) = 1" .
  with ds ExternalMultiPartitionsDefinitionData show ?thesis by simp
qed (use assms in simp_all)

theorem resolve_dimensionTypes_witness:
  "well_formed_def example_gpd example_multi \<and>
   resolve_dimensionTypes example_gpd example_multi =
     Inr [\<lparr>dim_name = ''color'', dim_description = ''multi'', dim_type = STATIC,
           isPrimaryDimension = False, dynamicPartitionsDefinitionName = None\<rparr>,
          \<lparr>dim_name = ''date'', dim_description = ''multi'', dim_type = TIME_WINDOW,
           isPrimaryDimension = True, dynamicPartitionsDefinitionName = None\<rparr>] \<and>
   well_formed_def example_gpd (ExternalDynamicPartitionsDefinitionData ''fruits'') \<and>
   resolve_dimensionTypes example_gpd (ExternalDynamicPartitionsDefinitionData ''fruits'') =
     Inr [\<lparr>dim_name = ''default'', dim_description = '''', dim_type = DYNAMIC,
           isPrimaryDimension = True, dynamicPartitionsDefinitionName = Some ''fruits''\<rparr>]"
proof -
  have wf1: "well_formed_def example_gpd example_multi"
    by (simp add: example_multi_def example_gpd_def)
  have wf2: "well_formed_def example_gpd (ExternalDynamicPartitionsDefinitionData ''fruits'')"
    by simp
  from wf1 wf2
    resolve_dimensionTypes_exactly_one_primary [OF wf1]
    resolve_dimensionTypes_exactly_one_primary [OF wf2]
  show ?thesis by (simp add: example_multi_def example_gpd_def)
qed

subsection \<open>Partition names of a partition set\<close>

text \<open>
  Claim C5. Calling the partition-name lookup twice on the same partition-set object
  against the same context returns the same outcome both times (the same ordered
  sequence of names, or the same error), and the second call leaves the object as the
  first call left it.
\<close>

theorem get_partition_names_deterministic:
  "get_partition_names (snd (get_partition_names self ctx)) ctx =
     (fst (get_partition_names self ctx), snd (get_partition_names self ctx))"
  by (simp add: get_partition_names_def
           split: option.splits ExternalPartitionNamesResult.splits)

text \<open>
  Claim C6, as stated: the lookup takes an explicit snapshot token, or every repeated
  call fetches the names again from the external source. The lookup has no such
  parameter, and the statement fails on a fresh object whose first call is answered with
  the name a and whose second call meets a source that answers a, b: the second call
  returns a, the names stored on the object.
\<close>

theorem get_partition_names_refetch_counterexample:
  "get_external_partition_names (example_context [] [''a'', ''b''])
     example_handle ''job'' (ctx_instance (example_context [] [''a'', ''b''])) None =
     ExternalPartitionNamesData [''a'', ''b''] \<and>
   fst (get_partition_names
          (snd (get_partition_names
                  (GraphenePartitionSet_init example_handle example_partition_set)
                  (example_context [] [''a''])))
          (example_context [] [''a'', ''b''])) =
     Inr [''a'']"
  by (simp add: get_partition_names_def GraphenePartitionSet_init_def example_context_def
        example_partition_set_def)

text \<open>
  Claim C6, amended. The lookup memoizes on the object. While no names are stored, a
  call asks the external source: its names are returned and stored on the object, its
  error is raised and nothing is stored. Once a call has returned names, these names
  are stored on the object and every later call on it returns them, whatever the
  context it is given.
\<close>

theorem get_partition_names_memoized:
  "(partition_names self = None \<longrightarrow>
      get_partition_names self ctx =
        (case get_external_partition_names ctx (external_repository_handle self)
                (eps_job_name (external_partition_set self)) (ctx_instance ctx) None of
           ExternalPartitionExecutionErrorData e \<Rightarrow> (Inl (DagsterUserCodeProcessError e), self)
         | ExternalPartitionNamesData names \<Rightarrow>
             (Inr names, self\<lparr>partition_names := Some names\<rparr>))) \<and>
   (fst (get_partition_names self ctx) = Inr names \<longrightarrow>
      partition_names (snd (get_partition_names self ctx)) = Some names \<and>
      (\<forall>ctx'. get_partition_names (snd (get_partition_names self ctx)) ctx' =
               (Inr names, snd (get_partition_names self ctx))))"
  by (auto simp add: get_partition_names_def
           split: option.splits ExternalPartitionNamesResult.splits)

theorem get_partition_names_memoized_witness:
  "partition_names (GraphenePartitionSet_init example_handle example_partition_set) = None \<and>
   fst (get_partition_names
          (GraphenePartitionSet_init example_handle example_partition_set)
          (example_context [] [''a''])) = Inr [''a''] \<and>
   get_partition_names
     (snd (get_partition_names
             (GraphenePartitionSet_init example_handle example_partition_set)
             (example_context [] [''a''])))
     (example_context [] [''a'', ''b'']) =
     (Inr [''a''],
      snd (get_partition_names
             (GraphenePartitionSet_init example_handle example_partition_set)
             (example_context [] [''a''])))"
proof -
  let ?self = "GraphenePartitionSet_init example_handle example_partition_set"
  let ?ctx = "example_context [] [''a'']"
  have none: "partition_names ?self = None"
    by (simp add: GraphenePartitionSet_init_def)
  have first: "fst (get_partition_names ?self ?ctx) = Inr [''a'']"
    by (simp add: get_partition_names_def GraphenePartitionSet_init_def example_context_def)
  from get_partition_names_memoized [of ?self ?ctx "[''a'']"] first
  have "\<forall>ctx'. get_partition_names (snd (get_partition_names ?self ?ctx)) ctx' =
               (Inr [''a''], snd (get_partition_names ?self ?ctx))"
    by blast
  then have "get_partition_names (snd (get_partition_names ?self ?ctx))
               (example_context [] [''a'', ''b'']) =
             (Inr [''a''], snd (get_partition_names ?self ?ctx))"
    by (rule spec)
  with none first show ?thesis by blast
qed

subsection \<open>Runs of a partition\<close>



subsection \<open>Backfills of a partition set\<close>

lemma slice_to_prefix: "prefix (slice_to xs limit) xs"
  by (cases limit) (simp_all add: take_is_prefix)

text \<open>
  Claim C10. Every resolved backfill is a stored backfill whose partition-set origin
  exists and names this partition set and this repository. The resolved backfills are
  a prefix of the matching stored backfills in the store's order: all of them when no
  limit is given, and at most \<open>limit\<close> of them when a limit is given (a limit that is a
  count, that is, not negative).
\<close>

theorem resolve_backfills_matching_prefix:
  "(\<forall>g \<in> set (resolve_backfills self graphene_info cursor limit).
      \<exists>backfill origin. g = GraphenePartitionBackfill backfill \<and>
        backfill \<in> set (get_backfills (ctx_instance graphene_info) cursor) \<and>
        partition_set_origin backfill = Some origin \<and>
        partition_set_name origin = eps_name (external_partition_set self) \<and>
        origin_repository_name (repository_origin origin) =
          repository_name (external_repository_handle self)) \<and>
   prefix (resolve_backfills self graphene_info cursor limit)
     (map GraphenePartitionBackfill
        (filter (backfill_matches self) (get_backfills (ctx_instance graphene_info) cursor))) \<and>
   (limit = None \<longrightarrow>
      resolve_backfills self graphene_info cursor limit =
        map GraphenePartitionBackfill
          (filter (backfill_matches self) (get_backfills (ctx_instance graphene_info) cursor))) \<and>
   (\<forall>l. limit = Some l \<and> 0 \<le> l \<longrightarrow>
      int (length (resolve_backfills self graphene_info cursor limit)) \<le> l \<and>
      resolve_backfills self graphene_info cursor limit =
        map GraphenePartitionBackfill
          (take (nat l)
             (filter (backfill_matches self)
                (get_backfills (ctx_instance graphene_info) cursor))))"
proof -
  let ?store = "get_backfills (ctx_instance graphene_info) cursor"
  let ?matching = "filter (backfill_matches self) ?store"
  have res: "resolve_backfills self graphene_info cursor limit =
               map GraphenePartitionBackfill (slice_to ?matching limit)"
    by (simp add: resolve_backfills_def)
  have pre: "prefix (slice_to ?matching limit) ?matching" by (rule slice_to_prefix)
  then have sub: "set (slice_to ?matching limit) \<subseteq> set ?matching"
    by (rule set_mono_prefix)
  have a: "\<forall>g \<in> set (resolve_backfills self graphene_info cursor limit).
      \<exists>backfill origin. g = GraphenePartitionBackfill backfill \<and>
        backfill \<in> set ?store \<and>
        partition_set_origin backfill = Some origin \<and>
        partition_set_name origin = eps_name (external_partition_set self) \<and>
        origin_repository_name (repository_origin origin) =
          repository_name (external_repository_handle self)"
  proof
    fix g assume "g \<in> set (resolve_backfills self graphene_info cursor limit)"
    then obtain b where b: "g = GraphenePartitionBackfill b" "b \<in> set (slice_to ?matching limit)"
      unfolding res by auto
    with sub have "b \<in> set ?store" "backfill_matches self b" by auto
    then show "\<exists>backfill origin. g = GraphenePartitionBackfill backfill \<and>
        backfill \<in> set ?store \<and>
        partition_set_origin backfill = Some origin \<and>
        partition_set_name origin = eps_name (external_partition_set self) \<and>
        origin_repository_name (repository_origin origin) =
          repository_name (external_repository_handle self)"
      using b(1) by (auto simp: backfill_matches_def split: option.splits)
  qed
  have b: "prefix (resolve_backfills self graphene_info cursor limit)
             (map GraphenePartitionBackfill ?matching)"
    unfolding res using pre by (rule map_mono_prefix)
  have c: "limit = None \<longrightarrow>
      resolve_backfills self graphene_info cursor limit = map GraphenePartitionBackfill ?matching"
    by (auto simp: resolve_backfills_def)
  have d: "\<forall>l. limit = Some l \<and> 0 \<le> l \<longrightarrow>
      int (length (resolve_backfills self graphene_info cursor limit)) \<le> l \<and>
      resolve_backfills self graphene_info cursor limit =
        map GraphenePartitionBackfill (take (nat l) ?matching)"
    by (auto simp: resolve_backfills_def)
  from a b c d show ?thesis by blast
qed

theorem resolve_backfills_matching_prefix_witness:
  "resolve_backfills
     (GraphenePartitionSet_init example_handle example_partition_set)
     (example_context
        [example_backfill ''b1'', foreign_backfill ''b2'', asset_backfill ''b3'',
         example_backfill ''b4'', example_backfill ''b5''] [])
     None (Some 2) =
     [GraphenePartitionBackfill (example_backfill ''b1''),
      GraphenePartitionBackfill (example_backfill ''b4'')] \<and>
   resolve_backfills
     (GraphenePartitionSet_init example_handle example_partition_set)
     (example_context
        [example_backfill ''b1'', foreign_backfill ''b2'', asset_backfill ''b3'',
         example_backfill ''b4'', example_backfill ''b5''] [])
     None None =
     [GraphenePartitionBackfill (example_backfill ''b1''),
      GraphenePartitionBackfill (example_backfill ''b4''),
      GraphenePartitionBackfill (example_backfill ''b5'')]"
proof -
  let ?self = "GraphenePartitionSet_init example_handle example_partition_set"
  let ?ctx = "example_context
        [example_backfill ''b1'', foreign_backfill ''b2'', asset_backfill ''b3'',
         example_backfill ''b4'', example_backfill ''b5''] []"
  have matching:
    "filter (backfill_matches ?self) (get_backfills (ctx_instance ?ctx) None) =
       [example_backfill ''b1'', example_backfill ''b4'', example_backfill ''b5'']"
    by (simp add: backfill_matches_def GraphenePartitionSet_init_def example_context_def
          example_backfill_def foreign_backfill_def asset_backfill_def example_handle_def
          example_partition_set_def)
  have two: "resolve_backfills ?self ?ctx None (Some 2) =
      [GraphenePartitionBackfill (example_backfill ''b1''),
       GraphenePartitionBackfill (example_backfill ''b4'')]"
    using resolve_backfills_matching_prefix [of ?self ?ctx None "Some 2"] matching
    by (simp add: numeral_2_eq_2)
  have all: "resolve_backfills ?self ?ctx None None =
      [GraphenePartitionBackfill (example_backfill ''b1''),
       GraphenePartitionBackfill (example_backfill ''b4''),
       GraphenePartitionBackfill (example_backfill ''b5'')]"
    using resolve_backfills_matching_prefix [of ?self ?ctx None None] matching
    by simp
  from two all show ?thesis by blast
qed

subsection \<open>Results of the dynamic-partition mutations\<close>

text \<open>
  Claim C2. Deleting keys of which some are not present is rejected with a
  KeyNotFoundError that carries the definition name and names exactly the keys that are
  not present; this error is a variant of its own, different from every
  DuplicateKeyError. Deleting keys that are all present succeeds and removes them.
\<close>

theorem deleteKeys_rejects_missing:
  "((\<exists>k \<in> set keys. k \<notin> set (listKeys st defName)) \<longrightarrow>
      deleteKeys st defName keys =
        Inl (KeyNotFoundError defName (filter (\<lambda>k. k \<notin> set (listKeys st defName)) keys)) \<and>
      set (filter (\<lambda>k. k \<notin> set (listKeys st defName)) keys) =
        set keys - set (listKeys st defName) \<and>
      deleteKeys st defName keys \<noteq> Inl (DuplicateKeyError d ks)) \<and>
   ((\<forall>k \<in> set keys. k \<in> set (listKeys st defName)) \<longrightarrow>
      (\<exists>st'. deleteKeys st defName keys = Inr st' \<and>
             listKeys st' defName = filter (\<lambda>k. k \<notin> set keys) (listKeys st defName)))"
proof -
  have a: "deleteKeys st defName keys =
        Inl (KeyNotFoundError defName (filter (\<lambda>k. k \<notin> set (listKeys st defName)) keys)) \<and>
      set (filter (\<lambda>k. k \<notin> set (listKeys st defName)) keys) =
        set keys - set (listKeys st defName) \<and>
      deleteKeys st defName keys \<noteq> Inl (DuplicateKeyError d ks)"
    if "\<exists>k \<in> set keys. k \<notin> set (listKeys st defName)"
  proof -
    from that have "filter (\<lambda>k. k \<notin> set (st defName)) keys \<noteq> []"
      by (auto simp: filter_empty_conv listKeys_def)
    then show ?thesis by (auto simp: deleteKeys_def listKeys_def)
  qed
  have b: "\<exists>st'. deleteKeys st defName keys = Inr st' \<and>
             listKeys st' defName = filter (\<lambda>k. k \<notin> set keys) (listKeys st defName)"
    if "\<forall>k \<in> set keys. k \<in> set (listKeys st defName)"
  proof -
    from that have "filter (\<lambda>k. k \<notin> set (st defName)) keys = []"
      by (auto simp: filter_empty_conv listKeys_def)
    then show ?thesis by (simp add: deleteKeys_def listKeys_def)
  qed
  from a b show ?thesis by blast
qed

theorem deleteKeys_rejects_missing_witness:
  "(\<exists>k \<in> set [''pear'', ''kiwi'', ''fig'']. k \<notin> set (listKeys example_registry ''fruits'')) \<and>
   deleteKeys example_registry ''fruits'' [''pear'', ''kiwi'', ''fig''] =
     Inl (KeyNotFoundError ''fruits'' [''kiwi'', ''fig'']) \<and>
   (\<exists>st'. deleteKeys example_registry ''fruits'' [''pear''] = Inr st' \<and>
          listKeys st' ''fruits'' = [''apple''])"
proof -
  have missing:
    "\<exists>k \<in> set [''pear'', ''kiwi'', ''fig'']. k \<notin> set (listKeys example_registry ''fruits'')"
    by (simp add: listKeys_def example_registry_def)
  have "deleteKeys example_registry ''fruits'' [''pear'', ''kiwi'', ''fig''] =
     Inl (KeyNotFoundError ''fruits''
            (filter (\<lambda>k. k \<notin> set (listKeys example_registry ''fruits''))
               [''pear'', ''kiwi'', ''fig'']))"
    using deleteKeys_rejects_missing
      [of "[''pear'', ''kiwi'', ''fig'']" example_registry "''fruits''"] missing
    by blast
  then have rejected: "deleteKeys example_registry ''fruits'' [''pear'', ''kiwi'', ''fig''] =
     Inl (KeyNotFoundError ''fruits'' [''kiwi'', ''fig''])"
    by (simp add: listKeys_def example_registry_def)
  have present: "\<forall>k \<in> set [''pear'']. k \<in> set (listKeys example_registry ''fruits'')"
    by (simp add: listKeys_def example_registry_def)
  have "\<exists>st'. deleteKeys example_registry ''fruits'' [''pear''] = Inr st' \<and>
          listKeys st' ''fruits'' =
            filter (\<lambda>k. k \<notin> set [''pear'']) (listKeys example_registry ''fruits'')"
    using deleteKeys_rejects_missing [of "[''pear'']" example_registry "''fruits''"] present
    by blast
  then have deleted: "\<exists>st'. deleteKeys example_registry ''fruits'' [''pear''] = Inr st' \<and>
          listKeys st' ''fruits'' = [''apple'']"
    by (simp add: listKeys_def example_registry_def)
  from missing rejected deleted show ?thesis by blast
qed

text \<open>
  Claim C3. Adding keys of which some are already present is rejected with a
  DuplicateKeyError that names exactly the keys already present; adding the same keys
  again after a committed add is rejected with a DuplicateKeyError that names them all.
  The result union of the add mutation has the duplicate-partition error among its
  members, as its one error about partition keys.
\<close>

theorem addKeys_rejects_duplicates:
  "((\<exists>k \<in> set keys. k \<in> set (listKeys st defName)) \<longrightarrow>
      addKeys st defName keys =
        Inl (DuplicateKeyError defName (filter (\<lambda>k. k \<in> set (listKeys st defName)) keys)) \<and>
      set (filter (\<lambda>k. k \<in> set (listKeys st defName)) keys) =
        set keys \<inter> set (listKeys st defName)) \<and>
   (keys \<noteq> [] \<and> addKeys st defName keys = Inr (committed, st') \<longrightarrow>
      set keys \<subseteq> set (listKeys st' defName) \<and>
      addKeys st' defName keys = Inl (DuplicateKeyError defName keys)) \<and>
   GrapheneDuplicateDynamicPartitionError \<in> set GrapheneAddDynamicPartitionResult \<and>
   filter is_partition_key_error GrapheneAddDynamicPartitionResult =
     [GrapheneDuplicateDynamicPartitionError]"
proof -
  have a: "addKeys st defName keys =
        Inl (DuplicateKeyError defName (filter (\<lambda>k. k \<in> set (listKeys st defName)) keys)) \<and>
      set (filter (\<lambda>k. k \<in> set (listKeys st defName)) keys) =
        set keys \<inter> set (listKeys st defName)"
    if "\<exists>k \<in> set keys. k \<in> set (listKeys st defName)"
  proof -
    from that have "filter (\<lambda>k. k \<in> set (st defName)) keys \<noteq> []"
      by (auto simp: filter_empty_conv listKeys_def)
    then show ?thesis by (auto simp: addKeys_def listKeys_def)
  qed
  have b: "set keys \<subseteq> set (listKeys st' defName) \<and>
      addKeys st' defName keys = Inl (DuplicateKeyError defName keys)"
    if "keys \<noteq> []" "addKeys st defName keys = Inr (committed, st')"
  proof -
    from that(2) have st': "st' = st(defName := st defName @ remdups keys)"
      by (auto simp: addKeys_def Let_def split: if_splits)
    then have sub: "set keys \<subseteq> set (st' defName)" by simp
    then have f: "filter (\<lambda>k. k \<in> set (st' defName)) keys = keys"
      by (auto simp: filter_id_conv)
    with that(1) show ?thesis using sub by (simp add: addKeys_def listKeys_def)
  qed
  have c: "GrapheneDuplicateDynamicPartitionError \<in> set GrapheneAddDynamicPartitionResult"
    by (simp add: GrapheneAddDynamicPartitionResult_def)
  have d: "filter is_partition_key_error GrapheneAddDynamicPartitionResult =
     [GrapheneDuplicateDynamicPartitionError]"
    by (simp add: GrapheneAddDynamicPartitionResult_def)
  from a b c d show ?thesis by blast
qed

theorem addKeys_rejects_duplicates_witness:
  "(\<exists>k \<in> set [''kiwi'', ''pear'', ''apple'']. k \<in> set (listKeys example_registry ''fruits'')) \<and>
   addKeys example_registry ''fruits'' [''kiwi'', ''pear'', ''apple''] =
     Inl (DuplicateKeyError ''fruits'' [''pear'', ''apple'']) \<and>
   addKeys example_registry ''fruits'' [''kiwi''] =
     Inr ([''kiwi''], example_registry(''fruits'' := [''apple'', ''pear'', ''kiwi''])) \<and>
   addKeys (example_registry(''fruits'' := [''apple'', ''pear'', ''kiwi''])) ''fruits'' [''kiwi''] =
     Inl (DuplicateKeyError ''fruits'' [''kiwi''])"
proof -
  have present:
    "\<exists>k \<in> set [''kiwi'', ''pear'', ''apple'']. k \<in> set (listKeys example_registry ''fruits'')"
    by (simp add: listKeys_def example_registry_def)
  have first: "addKeys example_registry ''fruits'' [''kiwi''] =
     Inr ([''kiwi''], example_registry(''fruits'' := [''apple'', ''pear'', ''kiwi'']))"
    by (simp add: addKeys_def example_registry_def)
  have "addKeys example_registry ''fruits'' [''kiwi'', ''pear'', ''apple''] =
     Inl (DuplicateKeyError ''fruits''
            (filter (\<lambda>k. k \<in> set (listKeys example_registry ''fruits''))
               [''kiwi'', ''pear'', ''apple'']))"
    using addKeys_rejects_duplicates
      [of "[''kiwi'', ''pear'', ''apple'']" example_registry "''fruits''"] present
    by blast
  then have rejected: "addKeys example_registry ''fruits'' [''kiwi'', ''pear'', ''apple''] =
     Inl (DuplicateKeyError ''fruits'' [''pear'', ''apple''])"
    by (simp add: listKeys_def example_registry_def)
  have again:
    "addKeys (example_registry(''fruits'' := [''apple'', ''pear'', ''kiwi''])) ''fruits'' [''kiwi''] =
       Inl (DuplicateKeyError ''fruits'' [''kiwi''])"
    using addKeys_rejects_duplicates
      [of "[''kiwi'']" example_registry "''fruits''" "[''kiwi'']"
          "example_registry(''fruits'' := [''apple'', ''pear'', ''kiwi''])"] first
    by simp
  from present rejected first again show ?thesis by blast
qed

subsection \<open>Status of a partition and status counts\<close>

text \<open>
  Claim C4. The status query of a partition matches a run on exactly two tags, the
  partition-set tag with the name of the set and the partition tag with the key, each
  with an equal value; further tags of a run do not matter. If no run of the ledger
  matches, the status is "unstarted", with no run id. Otherwise the newest matching run
  decides: the status carries its id and its run status. The filter that
  \<open>resolve_runs\<close> sends when the caller gives none holds exactly these two tags and
  nothing else.
\<close>

theorem statusOf_newest_or_unstarted:
  "((\<forall>r \<in> set ledger. \<not> (run_tags r PST = Some (eps_name partitionSet) \<and>
                           run_tags r PNT = Some partitionKey)) \<longrightarrow>
      statusOf PST PNT ledger partitionSet partitionKey =
        \<lparr>partition_key = partitionKey, latest_run_id = None, status = Unstarted\<rparr>) \<and>
   (ledger = newer @ r # older \<and>
    run_tags r PST = Some (eps_name partitionSet) \<and> run_tags r PNT = Some partitionKey \<and>
    (\<forall>x \<in> set newer. \<not> (run_tags x PST = Some (eps_name partitionSet) \<and>
                          run_tags x PNT = Some partitionKey)) \<longrightarrow>
      statusOf PST PNT ledger partitionSet partitionKey =
        \<lparr>partition_key = partitionKey, latest_run_id = Some (run_id r),
         status = RunStatus (run_status r)\<rparr>) \<and>
   resolve_runs (\<lambda>runs_filter c l. runs_filter) to_selector merge_dicts PST PNT
     self None cursor limit =
     Inr \<lparr>run_ids = [], job_name = None, statuses = [],
          tags = [PST \<mapsto> eps_name (p_external_partition_set self),
                  PNT \<mapsto> p_partition_name self]\<rparr>"
proof -
  let ?P = "\<lambda>x::'a RunRecord. run_tags x PST = Some (eps_name partitionSet) \<and>
                 run_tags x PNT = Some partitionKey"
  have find: "RunLedgerQuery_find ledger
                [(PST, eps_name partitionSet), (PNT, partitionKey)] None None (Some 1) =
              take 1 (filter ?P ledger)" for ledger :: "'a RunRecord list"
    by (simp add: RunLedgerQuery_find_def tags_match_def)
  have a: "statusOf PST PNT ledger partitionSet partitionKey =
        \<lparr>partition_key = partitionKey, latest_run_id = None, status = Unstarted\<rparr>"
    if "\<forall>r \<in> set ledger. \<not> ?P r"
  proof -
    from that have "filter ?P ledger = []" by (simp add: filter_empty_conv)
    then show ?thesis unfolding statusOf_def find by simp
  qed
  have b: "statusOf PST PNT ledger partitionSet partitionKey =
        \<lparr>partition_key = partitionKey, latest_run_id = Some (run_id r),
         status = RunStatus (run_status r)\<rparr>"
    if "ledger = newer @ r # older" "?P r" "\<forall>x \<in> set newer. \<not> ?P x"
  proof -
    from that(3) have "filter ?P newer = []" by (simp add: filter_empty_conv)
    with that(1,2) have "take 1 (filter ?P ledger) = [r]" by simp
    then show ?thesis unfolding statusOf_def find by simp
  qed
  have c: "resolve_runs (\<lambda>runs_filter c l. runs_filter) to_selector merge_dicts PST PNT
     self None cursor limit =
     Inr \<lparr>run_ids = [], job_name = None, statuses = [],
          tags = [PST \<mapsto> eps_name (p_external_partition_set self),
                  PNT \<mapsto> p_partition_name self]\<rparr>"
    by (simp add: resolve_runs_def RunsFilter_new_def)
  from a b c show ?thesis by blast
qed

theorem statusOf_newest_or_unstarted_witness:
  "statusOf ''dagster/partition_set'' ''dagster/partition''
     [example_run ''r3'' ''STARTED'' ''ps'' ''a'',
      example_run ''r2'' ''FAILURE'' ''ps'' ''b'',
      example_run ''r1'' ''SUCCESS'' ''ps'' ''b'']
     example_partition_set ''b'' =
     \<lparr>partition_key = ''b'', latest_run_id = Some ''r2'', status = RunStatus ''FAILURE''\<rparr> \<and>
   statusOf ''dagster/partition_set'' ''dagster/partition''
     [example_run ''r3'' ''STARTED'' ''ps'' ''a'',
      example_run ''r2'' ''FAILURE'' ''ps'' ''b'',
      example_run ''r1'' ''SUCCESS'' ''ps'' ''b'']
     example_partition_set ''c'' =
     \<lparr>partition_key = ''c'', latest_run_id = None, status = Unstarted\<rparr>"
proof -
  let ?ledger = "[example_run ''r3'' ''STARTED'' ''ps'' ''a'',
                  example_run ''r2'' ''FAILURE'' ''ps'' ''b'',
                  example_run ''r1'' ''SUCCESS'' ''ps'' ''b'']"
  have "statusOf ''dagster/partition_set'' ''dagster/partition'' ?ledger
          example_partition_set ''b'' =
        \<lparr>partition_key = ''b'', latest_run_id = Some (run_id (example_run ''r2'' ''FAILURE'' ''ps'' ''b'')),
         status = RunStatus (run_status (example_run ''r2'' ''FAILURE'' ''ps'' ''b''))\<rparr>"
    using statusOf_newest_or_unstarted
      [where ledger = ?ledger and PST = "''dagster/partition_set''"
         and partitionSet = example_partition_set and PNT = "''dagster/partition''"
         and partitionKey = "''b''"
         and newer = "[example_run ''r3'' ''STARTED'' ''ps'' ''a'']"
         and r = "example_run ''r2'' ''FAILURE'' ''ps'' ''b''"
         and older = "[example_run ''r1'' ''SUCCESS'' ''ps'' ''b'']",
       THEN conjunct2, THEN conjunct1]
    by (simp add: example_run_def example_partition_set_def)
  then have b: "statusOf ''dagster/partition_set'' ''dagster/partition'' ?ledger
          example_partition_set ''b'' =
        \<lparr>partition_key = ''b'', latest_run_id = Some ''r2'', status = RunStatus ''FAILURE''\<rparr>"
    by (simp add: example_run_def)
  have c: "statusOf ''dagster/partition_set'' ''dagster/partition'' ?ledger
          example_partition_set ''c'' =
        \<lparr>partition_key = ''c'', latest_run_id = None, status = Unstarted\<rparr>"
    using statusOf_newest_or_unstarted
      [where ledger = ?ledger and PST = "''dagster/partition_set''"
         and partitionSet = example_partition_set and PNT = "''dagster/partition''"
         and partitionKey = "''c''", THEN conjunct1]
    by (simp add: example_run_def example_partition_set_def)
  from b c show ?thesis by blast
qed

lemma tally_sum: "sum_list (map snd (tally s bs)) = Suc (sum_list (map snd bs))"
  by (induction s bs rule: tally.induct) auto

lemma tally_keys: "set (map fst (tally s bs)) = insert s (set (map fst bs))"
  by (induction s bs rule: tally.induct) auto

lemma tally_distinct: "distinct (map fst bs) \<Longrightarrow> distinct (map fst (tally s bs))"
proof (induction s bs rule: tally.induct)
  case (1 s)
  then show ?case by simp
next
  case (2 s t n buckets)
  have "set (map fst (tally s buckets)) = insert s (set (map fst buckets))"
    by (rule tally_keys)
  with 2 show ?case by auto
qed

lemma tally_lookup:
  "distinct (map fst bs) \<Longrightarrow>
   map_of (tally s bs) b =
     (if b = s then Some (Suc (case map_of bs s of None \<Rightarrow> 0 | Some n \<Rightarrow> n)) else map_of bs b)"
  by (induction s bs rule: tally.induct) (auto split: option.splits)

lemma tally_count:
  "distinct (map fst bs) \<Longrightarrow>
   (case map_of (tally s bs) b of None \<Rightarrow> 0 | Some n \<Rightarrow> n) =
     (case map_of bs b of None \<Rightarrow> 0 | Some n \<Rightarrow> n) + (if s = b then 1 else 0)"
  by (simp add: tally_lookup split: option.splits)

lemma foldl_tally_sum:
  "sum_list (map snd (foldl (\<lambda>counts key. tally (f key) counts) bs keys)) =
     sum_list (map snd bs) + length keys"
  by (induction keys arbitrary: bs) (simp_all add: tally_sum)

lemma foldl_tally_distinct:
  "distinct (map fst bs) \<Longrightarrow>
   distinct (map fst (foldl (\<lambda>counts key. tally (f key) counts) bs keys))"
  by (induction keys arbitrary: bs) (simp_all add: tally_distinct)

lemma foldl_tally_keys:
  "set (map fst (foldl (\<lambda>counts key. tally (f key) counts) bs keys)) =
     set (map fst bs) \<union> f ` set keys"
proof (induction keys arbitrary: bs)
  case Nil
  then show ?case by simp
next
  case (Cons k keys)
  have "set (map fst (foldl (\<lambda>counts key. tally (f key) counts) (tally (f k) bs) keys)) =
          set (map fst (tally (f k) bs)) \<union> f ` set keys"
    by (rule Cons.IH)
  also have "\<dots> = insert (f k) (set (map fst bs)) \<union> f ` set keys"
    by (simp only: tally_keys)
  finally show ?case by auto
qed

lemma foldl_tally_count:
  "distinct (map fst bs) \<Longrightarrow>
   (case map_of (foldl (\<lambda>counts key. tally (f key) counts) bs keys) b of
      None \<Rightarrow> 0 | Some n \<Rightarrow> n) =
     (case map_of bs b of None \<Rightarrow> 0 | Some n \<Rightarrow> n) + length (filter (\<lambda>k. f k = b) keys)"
proof (induction keys arbitrary: bs)
  case Nil
  then show ?case by simp
next
  case (Cons k keys)
  have d: "distinct (map fst (tally (f k) bs))" using Cons.prems by (rule tally_distinct)
  have "(case map_of (foldl (\<lambda>counts key. tally (f key) counts) (tally (f k) bs) keys) b of
           None \<Rightarrow> 0 | Some n \<Rightarrow> n) =
        (case map_of (tally (f k) bs) b of None \<Rightarrow> 0 | Some n \<Rightarrow> n) +
          length (filter (\<lambda>k. f k = b) keys)"
    by (rule Cons.IH [OF d])
  also have "(case map_of (tally (f k) bs) b of None \<Rightarrow> 0 | Some n \<Rightarrow> n) =
        (case map_of bs b of None \<Rightarrow> 0 | Some n \<Rightarrow> n) + (if f k = b then 1 else 0)"
    by (rule tally_count [OF Cons.prems])
  finally show ?case by simp
qed

text \<open>
  Claim C1. For every ledger, partition set and list of keys, the counts of all buckets
  that \<open>statusCounts\<close> returns, the "unstarted" bucket among them, add up to the number
  of keys; no keys give no buckets. There is one bucket per status that some key has,
  and the count of a bucket is the number of keys with that status, so every key is
  counted exactly once.
\<close>

theorem statusCounts_accounts_for_every_key:
  "sum_list (map snd (statusCounts PST PNT ledger partitionSet keys)) = length keys \<and>
   statusCounts PST PNT ledger partitionSet [] = [] \<and>
   distinct (map fst (statusCounts PST PNT ledger partitionSet keys)) \<and>
   set (map fst (statusCounts PST PNT ledger partitionSet keys)) =
     (\<lambda>key. status (statusOf PST PNT ledger partitionSet key)) ` set keys \<and>
   (case map_of (statusCounts PST PNT ledger partitionSet keys) bucket of
      None \<Rightarrow> 0 | Some n \<Rightarrow> n) =
     length (filter (\<lambda>key. status (statusOf PST PNT ledger partitionSet key) = bucket) keys)"
proof -
  let ?f = "\<lambda>key. status (statusOf PST PNT ledger partitionSet key)"
  have sc: "statusCounts PST PNT ledger partitionSet keys =
              foldl (\<lambda>counts key. tally (?f key) counts) [] keys"
    by (simp add: statusCounts_def)
  have "sum_list (map snd (statusCounts PST PNT ledger partitionSet keys)) = length keys"
    unfolding sc by (simp add: foldl_tally_sum)
  moreover have "statusCounts PST PNT ledger partitionSet [] = []"
    by (simp add: statusCounts_def)
  moreover have "distinct (map fst (statusCounts PST PNT ledger partitionSet keys))"
    unfolding sc by (rule foldl_tally_distinct) simp
  moreover have "set (map fst (statusCounts PST PNT ledger partitionSet keys)) = ?f ` set keys"
    unfolding sc by (simp only: foldl_tally_keys) simp
  moreover have "(case map_of (statusCounts PST PNT ledger partitionSet keys) bucket of
      None \<Rightarrow> 0 | Some n \<Rightarrow> n) = length (filter (\<lambda>key. ?f key = bucket) keys)"
    unfolding sc by (simp add: foldl_tally_count)
  ultimately show ?thesis by blast
qed

theorem statusCounts_scenario_witness:
  "statusCounts ''dagster/partition_set'' ''dagster/partition''
     [example_run ''r1'' ''SUCCESS'' ''ps'' ''b''] example_partition_set [''a'', ''b'', ''c''] =
     [(Unstarted, 2), (RunStatus ''SUCCESS'', 1)] \<and>
   sum_list (map snd
     (statusCounts ''dagster/partition_set'' ''dagster/partition''
        [example_run ''r1'' ''SUCCESS'' ''ps'' ''b''] example_partition_set [''a'', ''b'', ''c''])) =
     3"
proof -
  have scenario:
    "statusCounts ''dagster/partition_set'' ''dagster/partition''
       [example_run ''r1'' ''SUCCESS'' ''ps'' ''b''] example_partition_set [''a'', ''b'', ''c''] =
       [(Unstarted, 2), (RunStatus ''SUCCESS'', 1)]"
    by (simp add: statusCounts_def statusOf_def RunLedgerQuery_find_def tags_match_def
          example_run_def example_partition_set_def)
  from statusCounts_accounts_for_every_key
    [of "''dagster/partition_set''" "''dagster/partition''"
        "[example_run ''r1'' ''SUCCESS'' ''ps'' ''b'']" example_partition_set
        "[''a'', ''b'', ''c'']"]
  have "sum_list (map snd
     (statusCounts ''dagster/partition_set'' ''dagster/partition''
        [example_run ''r1'' ''SUCCESS'' ''ps'' ''b''] example_partition_set [''a'', ''b'', ''c''])) =
     length [''a'', ''b'', ''c'']"
    by blast
  with scenario show ?thesis by simp
qed

end
